theory Spec2Isabelle
  imports Main "HOL-Library.Word"
begin

section \<open>JavaScript strings\<close>

text \<open>
  A JavaScript string is a sequence of UTF-16 code units. String literals of the source are
  written with \<open>js\<close>; every literal of the source is ASCII, so one byte is one code unit.
\<close>

type_synonym jsstring = "16 word list"

definition js :: "string \<Rightarrow> jsstring" where
  "js s = map of_char s"

text \<open>
  \<open>String.prototype.trim\<close> removes white space and line terminators from both ends:
  TAB, LF, VT, FF, CR, SP, NBSP, U+1680, U+2000 to U+200A, LS, PS, U+202F, U+205F, U+3000
  and the byte order mark. All of them are single code units.
\<close>

definition isWhiteSpace :: "16 word \<Rightarrow> bool" where
  "isWhiteSpace c \<longleftrightarrow>
     c \<in> set [0x0009, 0x000A, 0x000B, 0x000C, 0x000D, 0x0020, 0x00A0, 0x1680,
              0x2028, 0x2029, 0x202F, 0x205F, 0x3000, 0xFEFF]
     \<or> (0x2000 \<le> c \<and> c \<le> 0x200A)"

definition trim :: "jsstring \<Rightarrow> jsstring" where
  "trim s = rev (dropWhile isWhiteSpace (rev (dropWhile isWhiteSpace s)))"

text \<open>A string used as a condition is true exactly when it is not empty.\<close>

definition truthy :: "jsstring \<Rightarrow> bool" where
  "truthy s \<longleftrightarrow> s \<noteq> []"

text \<open>
  \<open>Number.prototype.toString\<close> on the non-negative integers that \<open>Date.now()\<close> returns:
  the decimal digits, most significant first.
\<close>

function toString :: "nat \<Rightarrow> jsstring" where
  "toString n =
     (if n < 10 then [of_nat (48 + n)]
      else toString (n div 10) @ [of_nat (48 + n mod 10)])"
  by pat_completeness auto
termination
  by (relation "measure id") auto

declare toString.simps [simp del]

section \<open>The data of \<open>App.tsx\<close>\<close>

datatype sender = User | Bot

record Message =
  id_of :: jsstring
  text_of :: jsstring
  sender :: sender
  timestamp :: nat

text \<open>A tab of the navigation; its icon is a rendered element and carries no state.\<close>

record Tab =
  tab_id :: jsstring
  tab_name :: jsstring

definition tabs :: "Tab list" where
  "tabs =
     [\<lparr>tab_id = js ''chat'', tab_name = js ''Chat''\<rparr>,
      \<lparr>tab_id = js ''suggestions'', tab_name = js ''Suggestions''\<rparr>,
      \<lparr>tab_id = js ''monitoring'', tab_name = js ''Monitoring''\<rparr>,
      \<lparr>tab_id = js ''testing'', tab_name = js ''Testing''\<rparr>,
      \<lparr>tab_id = js ''settings'', tab_name = js ''Settings''\<rparr>]"

record File =
  file_name :: jsstring
  file_content :: "8 word list"

section \<open>The data of \<open>services/api.ts\<close>\<close>

text \<open>Values that travel as JSON, with JavaScript's \<open>undefined\<close> for a missing property.\<close>

datatype jsvalue =
    JUndefined
  | JNull
  | JBool bool
  | JNum int
  | JStr jsstring
  | JArr "jsvalue list"
  | JObj "(jsstring \<times> jsvalue) list"

text \<open>
  What a rejected request carries (an optional status and a message), and the
  \<open>TypeError\<close> of reading a property of \<open>null\<close> or \<open>undefined\<close>.
\<close>

datatype error =
    TransportError "nat option" jsstring
  | TypeError

datatype http_method = GET | POST

datatype req_body =
    NoBody
  | JsonBody jsvalue
  | FormData "(jsstring \<times> File) list"

record request =
  method_of :: http_method
  baseURL :: jsstring
  url :: jsstring
  body :: req_body
  headers :: "jsstring \<rightharpoonup> jsstring"

record response =
  status :: nat
  data :: jsvalue

section \<open>Effects\<close>

datatype console_arg = ArgStr jsstring | ArgErr error

datatype console_entry =
    ConsoleLog "console_arg list"
  | ConsoleError "console_arg list"

text \<open>The one function ever passed to \<open>setTimeout\<close>: the simulated reply of the chat.\<close>

datatype callback = SimulatedReply

text \<open>
  The five \<open>useState\<close> cells of \<open>App\<close>, and what the program does to the outside:
  the lines written to the console, the timers scheduled and not yet run (callback and
  delay in milliseconds), and the HTTP requests handed to the axios instance.
\<close>

record world =
  activeTab :: jsstring
  messages :: "Message list"
  inputText :: jsstring
  isLoading :: bool
  repoUrl :: jsstring
  console :: "console_entry list"
  timers :: "(callback \<times> nat) list"
  requests :: "request list"

section \<open>The component \<open>App\<close>\<close>

definition greeting :: jsstring where
  "greeting = js (''Hello! I'' @ [CHR 0x27] @ ''m your DevOps GPT assistant. I can help you analyze your codebase, suggest improvements, and answer questions about your infrastructure. Upload a repository or ask me anything!'')"

definition demoResponse :: jsstring where
  "demoResponse = js (''I'' @ [CHR 0x27] @ ''m analyzing your request. This is a demo response - in the real app, this would connect to your LangChain backend.'')"

text \<open>The state at mount; \<open>date\<close> is the clock read by \<open>new Date()\<close>.\<close>

definition initial :: "nat \<Rightarrow> world" where
  "initial date =
     \<lparr>activeTab = js ''chat'',
      messages = [\<lparr>id_of = js ''1'', text_of = greeting, sender = Bot, timestamp = date\<rparr>],
      inputText = [],
      isLoading = False,
      repoUrl = [],
      console = [],
      timers = [],
      requests = []\<rparr>"

definition setActiveTab :: "jsstring \<Rightarrow> world \<Rightarrow> world" where
  "setActiveTab t w = w\<lparr>activeTab := t\<rparr>"

definition setInputText :: "jsstring \<Rightarrow> world \<Rightarrow> world" where
  "setInputText s w = w\<lparr>inputText := s\<rparr>"

definition setRepoUrl :: "jsstring \<Rightarrow> world \<Rightarrow> world" where
  "setRepoUrl s w = w\<lparr>repoUrl := s\<rparr>"

text \<open>
  The body of the function given to \<open>setTimeout\<close>. \<open>now\<close> is what \<open>Date.now()\<close>
  returns and \<open>date\<close> what \<open>new Date()\<close> reads when the timer runs.
\<close>

definition simulatedReply :: "nat \<Rightarrow> nat \<Rightarrow> world \<Rightarrow> world" where
  "simulatedReply now date w =
     (let botMessage =
        \<lparr>id_of = toString (now + 1), text_of = demoResponse, sender = Bot, timestamp = date\<rparr>
      in w\<lparr>messages := messages w @ [botMessage], isLoading := False\<rparr>)"

definition runCallback :: "callback \<Rightarrow> nat \<Rightarrow> nat \<Rightarrow> world \<Rightarrow> world" where
  "runCallback cb now date w = (case cb of SimulatedReply \<Rightarrow> simulatedReply now date w)"

definition handleSendMessage :: "nat \<Rightarrow> nat \<Rightarrow> world \<Rightarrow> world" where
  "handleSendMessage now date w =
     (if \<not> truthy (trim (inputText w)) then w
      else
        let userMessage =
          \<lparr>id_of = toString now, text_of = inputText w, sender = User, timestamp = date\<rparr>
        in w\<lparr>messages := messages w @ [userMessage],
             inputText := [],
             isLoading := True,
             timers := timers w @ [(SimulatedReply, 1000)]\<rparr>)"

record KeyboardEvent =
  key :: jsstring
  shiftKey :: bool

text \<open>The result says whether \<open>preventDefault\<close> was called on the event.\<close>

definition handleKeyPress :: "KeyboardEvent \<Rightarrow> nat \<Rightarrow> nat \<Rightarrow> world \<Rightarrow> bool \<times> world" where
  "handleKeyPress e now date w =
     (if key e = js ''Enter'' \<and> \<not> shiftKey e then (True, handleSendMessage now date w)
      else (False, w))"

text \<open>
  \<open>e.target.files\<close> is a list of files or \<open>null\<close>; \<open>files?.[0]\<close> is its first file, or
  \<open>undefined\<close> when there is none.
\<close>

definition handleFileUpload :: "File list option \<Rightarrow> world \<Rightarrow> world" where
  "handleFileUpload files w =
     (case files of
        None \<Rightarrow> w
      | Some [] \<Rightarrow> w
      | Some (file # _) \<Rightarrow>
          w\<lparr>console := console w @
               [ConsoleLog [ArgStr (js ''File uploaded:''), ArgStr (file_name file)]]\<rparr>)"

definition handleRepoSubmit :: "nat \<Rightarrow> nat \<Rightarrow> world \<Rightarrow> world" where
  "handleRepoSubmit now date w =
     (if truthy (trim (repoUrl w)) then
        w\<lparr>console := console w @
             [ConsoleLog [ArgStr (js ''Repository URL:''), ArgStr (repoUrl w)]],
          messages := messages w @
             [\<lparr>id_of = toString now,
               text_of = js ''Analyzing repository: '' @ repoUrl w,
               sender = Bot,
               timestamp = date\<rparr>]\<rparr>
      else w)"

subsection \<open>What the rendered page lets the user do\<close>

text \<open>The \<open>disabled\<close> attributes of the two buttons.\<close>

definition sendDisabled :: "world \<Rightarrow> bool" where
  "sendDisabled w \<longleftrightarrow> \<not> truthy (trim (inputText w)) \<or> isLoading w"

definition connectDisabled :: "world \<Rightarrow> bool" where
  "connectDisabled w \<longleftrightarrow> \<not> truthy (trim (repoUrl w))"

text \<open>
  The events of the page. Those that read the clock carry the two readings
  (\<open>Date.now()\<close> and \<open>new Date()\<close>).
\<close>

datatype event =
    TabClick Tab
  | InputChange jsstring
  | KeyPress KeyboardEvent nat nat
  | SendClick nat nat
  | RepoUrlChange jsstring
  | ConnectClick nat nat
  | FileChange "File list option"
  | TimerFire nat nat

text \<open>
  One event, or \<open>None\<close> when the page does not offer it in this state: the chat panel
  (the text area and the send button) is rendered on the chat tab only, a disabled button
  does not click, and a timer runs only when one is scheduled. All timers have the same
  delay, so they run in the order in which they were scheduled.
\<close>

definition step :: "event \<Rightarrow> world \<Rightarrow> world option" where
  "step ev w =
     (case ev of
        TabClick tab \<Rightarrow> if tab \<in> set tabs then Some (setActiveTab (tab_id tab) w) else None
      | InputChange s \<Rightarrow> if activeTab w = js ''chat'' then Some (setInputText s w) else None
      | KeyPress e now date \<Rightarrow>
          if activeTab w = js ''chat'' then Some (snd (handleKeyPress e now date w)) else None
      | SendClick now date \<Rightarrow>
          if activeTab w = js ''chat'' \<and> \<not> sendDisabled w
          then Some (handleSendMessage now date w) else None
      | RepoUrlChange s \<Rightarrow> Some (setRepoUrl s w)
      | ConnectClick now date \<Rightarrow>
          if \<not> connectDisabled w then Some (handleRepoSubmit now date w) else None
      | FileChange files \<Rightarrow> Some (handleFileUpload files w)
      | TimerFire now date \<Rightarrow>
          (case timers w of
             [] \<Rightarrow> None
           | (cb, delay) # rest \<Rightarrow> Some (runCallback cb now date (w\<lparr>timers := rest\<rparr>))))"

fun run :: "event list \<Rightarrow> world \<Rightarrow> world option" where
  "run [] w = Some w"
| "run (ev # evs) w = (case step ev w of None \<Rightarrow> None | Some w' \<Rightarrow> run evs w')"

section \<open>The transport and the clients of \<open>services/api.ts\<close>\<close>

definition API_BASE_URL :: jsstring where
  "API_BASE_URL = js ''/api''"

definition defaultHeaders :: "jsstring \<rightharpoonup> jsstring" where
  "defaultHeaders = [js ''Content-Type'' \<mapsto> js ''application/json'']"

text \<open>
  The response interceptor, registered when the module is loaded and so before any call:
  its first function returns the response, its second writes the error to the console
  and throws it again.
\<close>

definition onFulfilled :: "response \<Rightarrow> response" where
  "onFulfilled response = response"

definition onRejected :: "error \<Rightarrow> world \<Rightarrow> (error + response) \<times> world" where
  "onRejected error w =
     (Inl error,
      w\<lparr>console := console w @ [ConsoleError [ArgStr (js ''API Error:''), ArgErr error]]\<rparr>)"

text \<open>
  The remote service is a parameter: how axios settles a request, a response or a
  rejection. The instance hands the request over and passes the outcome through the
  interceptor.
\<close>

type_synonym service = "request \<Rightarrow> error + response"

definition api_request :: "service \<Rightarrow> request \<Rightarrow> world \<Rightarrow> (error + response) \<times> world" where
  "api_request srv rq w =
     (let w' = w\<lparr>requests := requests w @ [rq]\<rparr>
      in case srv rq of
           Inr response \<Rightarrow> (Inr (onFulfilled response), w')
         | Inl error \<Rightarrow> onRejected error w')"

text \<open>The configuration of a call: the instance's defaults, overridden by the call's own.\<close>

definition getConfig :: "jsstring \<Rightarrow> request" where
  "getConfig u =
     \<lparr>method_of = GET, baseURL = API_BASE_URL, url = u, body = NoBody, headers = defaultHeaders\<rparr>"

definition postConfig :: "jsstring \<Rightarrow> req_body \<Rightarrow> (jsstring \<rightharpoonup> jsstring) \<Rightarrow> request" where
  "postConfig u d hdrs =
     \<lparr>method_of = POST, baseURL = API_BASE_URL, url = u, body = d,
      headers = defaultHeaders ++ hdrs\<rparr>"

definition api_get :: "service \<Rightarrow> jsstring \<Rightarrow> world \<Rightarrow> (error + response) \<times> world" where
  "api_get srv u w = api_request srv (getConfig u) w"

definition api_post ::
  "service \<Rightarrow> jsstring \<Rightarrow> req_body \<Rightarrow> (jsstring \<rightharpoonup> jsstring) \<Rightarrow> world
    \<Rightarrow> (error + response) \<times> world" where
  "api_post srv u d hdrs w = api_request srv (postConfig u d hdrs) w"

text \<open>
  Reading a property that no prototype defines (\<open>script\<close>, \<open>config\<close>): a \<open>TypeError\<close> on
  \<open>null\<close> and \<open>undefined\<close>, the object's own property if it has one, \<open>undefined\<close>
  otherwise. An object holds its own properties, each key once.
\<close>

definition getProp :: "jsvalue \<Rightarrow> jsstring \<Rightarrow> error + jsvalue" where
  "getProp v k =
     (case v of
        JUndefined \<Rightarrow> Inl TypeError
      | JNull \<Rightarrow> Inl TypeError
      | JObj kvs \<Rightarrow> (case map_of kvs k of None \<Rightarrow> Inr JUndefined | Some x \<Rightarrow> Inr x)
      | _ \<Rightarrow> Inr JUndefined)"

text \<open>An \<open>async\<close> function that awaits a rejected call rejects with the same error.\<close>

definition sendMessage :: "service \<Rightarrow> jsstring \<Rightarrow> world \<Rightarrow> (error + jsvalue) \<times> world" where
  "sendMessage srv message w =
     (case api_post srv (js ''/chat'') (JsonBody (JObj [(js ''message'', JStr message)]))
             Map.empty w of
        (Inl e, w') \<Rightarrow> (Inl e, w')
      | (Inr response, w') \<Rightarrow> (Inr (data response), w'))"

definition getHistory :: "service \<Rightarrow> world \<Rightarrow> (error + jsvalue) \<times> world" where
  "getHistory srv w =
     (case api_get srv (js ''/chat/history'') w of
        (Inl e, w') \<Rightarrow> (Inl e, w')
      | (Inr response, w') \<Rightarrow> (Inr (data response), w'))"

definition analyzeRepository :: "service \<Rightarrow> jsstring \<Rightarrow> world \<Rightarrow> (error + jsvalue) \<times> world" where
  "analyzeRepository srv repoUrl' w =
     (case api_post srv (js ''/repository/analyze'')
             (JsonBody (JObj [(js ''repository_url'', JStr repoUrl')])) Map.empty w of
        (Inl e, w') \<Rightarrow> (Inl e, w')
      | (Inr response, w') \<Rightarrow> (Inr (data response), w'))"

text \<open>\<open>FormData.append\<close> adds an entry after those already there.\<close>

definition formData_append ::
  "(jsstring \<times> File) list \<Rightarrow> jsstring \<Rightarrow> File \<Rightarrow> (jsstring \<times> File) list" where
  "formData_append formData name v = formData @ [(name, v)]"

definition uploadFiles :: "service \<Rightarrow> File list \<Rightarrow> world \<Rightarrow> (error + jsvalue) \<times> world" where
  "uploadFiles srv files w =
     (let formData = foldl (\<lambda>formData file. formData_append formData (js ''files'') file) [] files
      in case api_post srv (js ''/repository/upload'') (FormData formData)
                [js ''Content-Type'' \<mapsto> js ''multipart/form-data''] w of
           (Inl e, w') \<Rightarrow> (Inl e, w')
         | (Inr response, w') \<Rightarrow> (Inr (data response), w'))"

definition getSuggestions :: "service \<Rightarrow> world \<Rightarrow> (error + jsvalue) \<times> world" where
  "getSuggestions srv w =
     (case api_get srv (js ''/suggestions'') w of
        (Inl e, w') \<Rightarrow> (Inl e, w')
      | (Inr response, w') \<Rightarrow> (Inr (data response), w'))"

datatype test_type = Selenium | Pytest | Testng

fun test_type_str :: "test_type \<Rightarrow> jsstring" where
  "test_type_str Selenium = js ''selenium''"
| "test_type_str Pytest = js ''pytest''"
| "test_type_str Testng = js ''testng''"

datatype monitoring_type = Prometheus | Grafana

fun monitoring_type_str :: "monitoring_type \<Rightarrow> jsstring" where
  "monitoring_type_str Prometheus = js ''prometheus''"
| "monitoring_type_str Grafana = js ''grafana''"

definition generateTestScripts ::
  "service \<Rightarrow> test_type \<Rightarrow> world \<Rightarrow> (error + jsvalue) \<times> world" where
  "generateTestScripts srv type w =
     (case api_post srv (js ''/suggestions/generate-tests'')
             (JsonBody (JObj [(js ''type'', JStr (test_type_str type))])) Map.empty w of
        (Inl e, w') \<Rightarrow> (Inl e, w')
      | (Inr response, w') \<Rightarrow> (getProp (data response) (js ''script''), w'))"

definition generateMonitoringConfig ::
  "service \<Rightarrow> monitoring_type \<Rightarrow> world \<Rightarrow> (error + jsvalue) \<times> world" where
  "generateMonitoringConfig srv type w =
     (case api_post srv (js ''/suggestions/generate-monitoring'')
             (JsonBody (JObj [(js ''type'', JStr (monitoring_type_str type))])) Map.empty w of
        (Inl e, w') \<Rightarrow> (Inl e, w')
      | (Inr response, w') \<Rightarrow> (getProp (data response) (js ''config''), w'))"

section \<open>What a call of the transport does\<close>

lemma api_request_outcome:
  "api_request srv rq w =
     (case srv rq of
        Inl e \<Rightarrow>
          (Inl e,
           w\<lparr>requests := requests w @ [rq],
             console := console w @ [ConsoleError [ArgStr (js ''API Error:''), ArgErr e]]\<rparr>)
      | Inr r \<Rightarrow> (Inr r, w\<lparr>requests := requests w @ [rq]\<rparr>))"
  by (simp add: api_request_def onRejected_def onFulfilled_def Let_def split: sum.splits)

lemma requests_sendMessage:
  "requests (snd (sendMessage srv message w)) =
     requests w @ [postConfig (js ''/chat'') (JsonBody (JObj [(js ''message'', JStr message)])) Map.empty]"
  by (simp add: sendMessage_def api_post_def api_request_outcome split: sum.splits)

lemma requests_analyzeRepository:
  "requests (snd (analyzeRepository srv u w)) =
     requests w @ [postConfig (js ''/repository/analyze'')
                     (JsonBody (JObj [(js ''repository_url'', JStr u)])) Map.empty]"
  by (simp add: analyzeRepository_def api_post_def api_request_outcome split: sum.splits)

lemma foldl_formData_append:
  "foldl (\<lambda>formData file. formData_append formData k file) acc files =
     acc @ map (\<lambda>file. (k, file)) files"
  by (induction files arbitrary: acc) (simp_all add: formData_append_def)

lemma requests_uploadFiles:
  "requests (snd (uploadFiles srv files w)) =
     requests w @ [postConfig (js ''/repository/upload'')
                     (FormData (map (\<lambda>file. (js ''files'', file)) files))
                     [js ''Content-Type'' \<mapsto> js ''multipart/form-data'']]"
  by (simp add: uploadFiles_def api_post_def api_request_outcome foldl_formData_append Let_def
      split: sum.splits)

lemma awaited_call:
  assumes "call w =
             (case api_request srv rq w of
                (Inl e, w') \<Rightarrow> (Inl e, w')
              | (Inr response, w') \<Rightarrow> (k response, w'))"
  shows "requests (snd (call w)) = requests w @ [rq]
       \<and> (\<forall>e. srv rq = Inl e \<longrightarrow>
            call w =
              (Inl e,
               w\<lparr>requests := requests w @ [rq],
                 console := console w @ [ConsoleError [ArgStr (js ''API Error:''), ArgErr e]]\<rparr>))"
  using assms by (simp add: api_request_outcome split: sum.splits)

section \<open>What the reply timer does\<close>

lemma runCallback_effect:
  "runCallback cb now date v =
     v\<lparr>messages := messages v @
          [\<lparr>id_of = toString (now + 1), text_of = demoResponse, sender = Bot, timestamp = date\<rparr>],
       isLoading := False\<rparr>"
  by (cases cb) (simp add: runCallback_def simulatedReply_def Let_def)

lemma step_TimerFire:
  "timers v = (cb, d) # rest \<Longrightarrow>
     step (TimerFire now date) v =
       Some (v\<lparr>timers := rest,
               messages := messages v @
                 [\<lparr>id_of = toString (now + 1), text_of = demoResponse, sender = Bot,
                   timestamp = date\<rparr>],
               isLoading := False\<rparr>)"
  by (simp add: step_def runCallback_effect)

lemma step_TimerFire_None:
  "timers v = [] \<Longrightarrow> step (TimerFire now date) v = None"
  by (simp add: step_def)

section \<open>Tab switching\<close>

text \<open>
  C6. Clicking a tab of the navigation is offered in every state, sets \<open>activeTab\<close> to
  the identifier of the clicked tab, and leaves the transcript, the loading flag, the chat
  draft, the repository URL draft and every effect as they were.
\<close>

theorem tab_switch_frame:
  "tab \<in> set tabs \<Longrightarrow>
     \<exists>w'. step (TabClick tab) w = Some w'
       \<and> activeTab w' = tab_id tab
       \<and> messages w' = messages w
       \<and> isLoading w' = isLoading w
       \<and> inputText w' = inputText w
       \<and> repoUrl w' = repoUrl w
       \<and> w' = w\<lparr>activeTab := tab_id tab\<rparr>"
  by (simp add: step_def setActiveTab_def)

theorem tab_switch_frame_witness:
  "\<lparr>tab_id = js ''settings'', tab_name = js ''Settings''\<rparr> \<in> set tabs
   \<and> (\<exists>w'. step (TabClick \<lparr>tab_id = js ''settings'', tab_name = js ''Settings''\<rparr>)
              (handleSendMessage 5 6 (setInputText (js ''hello'') (initial 0))) = Some w'
        \<and> activeTab w' = js ''settings''
        \<and> length (messages w') = 2
        \<and> isLoading w'
        \<and> inputText w' = []
        \<and> repoUrl w' = [])"
proof -
  have mem: "\<lparr>tab_id = js ''settings'', tab_name = js ''Settings''\<rparr> \<in> set tabs"
    by (simp add: tabs_def)
  have nonblank: "truthy (trim (js ''hello''))"
    by (simp add: truthy_def trim_def js_def isWhiteSpace_def)
  from tab_switch_frame [OF mem, of "handleSendMessage 5 6 (setInputText (js ''hello'') (initial 0))"]
  obtain w' where
    "step (TabClick \<lparr>tab_id = js ''settings'', tab_name = js ''Settings''\<rparr>)
       (handleSendMessage 5 6 (setInputText (js ''hello'') (initial 0))) = Some w'"
    and "w' = (handleSendMessage 5 6 (setInputText (js ''hello'') (initial 0)))
              \<lparr>activeTab := tab_id \<lparr>tab_id = js ''settings'', tab_name = js ''Settings''\<rparr>\<rparr>"
    by blast
  with mem nonblank show ?thesis
    by (simp add: handleSendMessage_def setInputText_def initial_def Let_def)
qed

section \<open>Chat submission\<close>

text \<open>
  C4. With a non-blank draft, \<open>handleSendMessage\<close> appends one user message carrying the
  draft, clears the draft, sets the loading flag and schedules the simulated reply; a
  transcript of length n has length n + 1 at once. The scheduled callback, in whatever
  state \<open>v\<close> the session is when the timer runs, appends exactly one assistant message and
  clears the loading flag, and so does the timer event of the page in every state with a
  timer scheduled. Run on the state the submission left, directly or through the timer
  event, it gives the transcript of the submission followed by that message: the length
  is n + 2.
\<close>

theorem chat_submission_then_reply:
  assumes "truthy (trim (inputText w))"
  shows "\<exists>userMessage botMessage.
           handleSendMessage now date w =
             w\<lparr>messages := messages w @ [userMessage], inputText := [], isLoading := True,
               timers := timers w @ [(SimulatedReply, 1000)]\<rparr>
         \<and> sender userMessage = User \<and> text_of userMessage = inputText w
         \<and> length (messages (handleSendMessage now date w)) = length (messages w) + 1
         \<and> runCallback SimulatedReply now' date' (handleSendMessage now date w) =
             (handleSendMessage now date w)
               \<lparr>messages := messages w @ [userMessage, botMessage], isLoading := False\<rparr>
         \<and> sender botMessage = Bot
         \<and> length (messages (runCallback SimulatedReply now' date' (handleSendMessage now date w)))
             = length (messages w) + 2
         \<and> runCallback cb now' date' v =
             v\<lparr>messages := messages v @ [botMessage], isLoading := False\<rparr>
         \<and> (\<forall>c d rest. timers v = (c, d) # rest \<longrightarrow>
               step (TimerFire now' date') v =
                 Some (v\<lparr>timers := rest, messages := messages v @ [botMessage],
                         isLoading := False\<rparr>))
         \<and> step (TimerFire now' date') (handleSendMessage now date w) =
             Some ((handleSendMessage now date w)
                     \<lparr>timers := tl (timers w @ [(SimulatedReply, 1000)]),
                       messages := messages w @ [userMessage, botMessage],
                       isLoading := False\<rparr>)"
proof (intro exI conjI)
  let ?u = "\<lparr>id_of = toString now, text_of = inputText w, sender = User, timestamp = date\<rparr>"
  let ?b = "\<lparr>id_of = toString (now' + 1), text_of = demoResponse, sender = Bot, timestamp = date'\<rparr>"
  let ?w1 = "handleSendMessage now date w"
  show sub: "?w1 =
          w\<lparr>messages := messages w @ [?u], inputText := [], isLoading := True,
            timers := timers w @ [(SimulatedReply, 1000)]\<rparr>"
    using assms by (simp add: handleSendMessage_def Let_def)
  show "sender ?u = User" by simp
  show "text_of ?u = inputText w" by simp
  have tm: "timers ?w1 = timers w @ [(SimulatedReply, 1000)]"
    by (subst sub) simp
  have ms: "messages ?w1 = messages w @ [?u]"
    by (subst sub) simp
  show "length (messages ?w1) = length (messages w) + 1"
    by (simp add: ms)
  show "runCallback SimulatedReply now' date' ?w1 =
          ?w1\<lparr>messages := messages w @ [?u, ?b], isLoading := False\<rparr>"
    by (simp add: runCallback_effect ms)
  show "sender ?b = Bot" by simp
  show "length (messages (runCallback SimulatedReply now' date' ?w1)) = length (messages w) + 2"
    by (simp add: runCallback_effect ms)
  show "runCallback cb now' date' v = v\<lparr>messages := messages v @ [?b], isLoading := False\<rparr>"
    by (rule runCallback_effect)
  show "\<forall>c d rest. timers v = (c, d) # rest \<longrightarrow>
               step (TimerFire now' date') v =
                 Some (v\<lparr>timers := rest, messages := messages v @ [?b], isLoading := False\<rparr>)"
    by (simp add: step_TimerFire)
  obtain c d rest where cons: "timers w @ [(SimulatedReply, 1000)] = (c, d) # rest"
    by (cases "timers w @ [(SimulatedReply, 1000)]") auto
  from cons tm have "timers ?w1 = (c, d) # rest" by simp
  from step_TimerFire [OF this, of now' date'] cons ms
  show "step (TimerFire now' date') ?w1 =
          Some (?w1\<lparr>timers := tl (timers w @ [(SimulatedReply, 1000)]),
                  messages := messages w @ [?u, ?b], isLoading := False\<rparr>)"
    by simp
qed


theorem chat_submission_then_reply_witness:
  "truthy (trim (inputText (setInputText (js ''hello'') (initial 0))))
   \<and> length (messages (setInputText (js ''hello'') (initial 0))) = 1
   \<and> length (messages (handleSendMessage 7 8 (setInputText (js ''hello'') (initial 0)))) = 2
   \<and> inputText (handleSendMessage 7 8 (setInputText (js ''hello'') (initial 0))) = []
   \<and> isLoading (handleSendMessage 7 8 (setInputText (js ''hello'') (initial 0)))
   \<and> length (messages (runCallback SimulatedReply 1007 1008
        (handleSendMessage 7 8 (setInputText (js ''hello'') (initial 0))))) = 3
   \<and> \<not> isLoading (runCallback SimulatedReply 1007 1008
        (handleSendMessage 7 8 (setInputText (js ''hello'') (initial 0))))
   \<and> (\<exists>v'. step (TimerFire 1007 1008)
               (handleSendMessage 7 8 (setInputText (js ''hello'') (initial 0))) = Some v'
         \<and> map sender (messages v') = [Bot, User, Bot]
         \<and> \<not> isLoading v'
         \<and> timers v' = [])
   \<and> map sender (messages (runCallback SimulatedReply 1007 1008
        (setInputText (js ''next'')
          (handleSendMessage 7 8 (setInputText (js ''hello'') (initial 0))))))
       = [Bot, User, Bot]
   \<and> \<not> isLoading (runCallback SimulatedReply 1007 1008
        (setInputText (js ''next'')
          (handleSendMessage 7 8 (setInputText (js ''hello'') (initial 0)))))"
proof -
  let ?W = "setInputText (js ''hello'') (initial 0)"
  let ?V = "setInputText (js ''next'') (handleSendMessage 7 8 ?W)"
  have nb: "truthy (trim (inputText ?W))"
    by (simp add: setInputText_def truthy_def trim_def js_def isWhiteSpace_def)
  have len: "length (messages ?W) = 1" and snd0: "map sender (messages ?W) = [Bot]"
    and tm0: "timers ?W = []"
    by (simp_all add: setInputText_def initial_def)
  from chat_submission_then_reply
         [where w = "?W" and now = 7 and date = 8 and now' = 1007 and date' = 1008
            and cb = SimulatedReply and v = "?V", OF nb]
  obtain u b where
    eq1: "handleSendMessage 7 8 ?W =
       ?W\<lparr>messages := messages ?W @ [u], inputText := [], isLoading := True,
           timers := timers ?W @ [(SimulatedReply, 1000)]\<rparr>"
    and su: "sender u = User"
    and eq2: "runCallback SimulatedReply 1007 1008 (handleSendMessage 7 8 ?W) =
       (handleSendMessage 7 8 ?W)\<lparr>messages := messages ?W @ [u, b], isLoading := False\<rparr>"
    and sb: "sender b = Bot"
    and gen: "runCallback SimulatedReply 1007 1008 ?V =
       ?V\<lparr>messages := messages ?V @ [b], isLoading := False\<rparr>"
    and st: "step (TimerFire 1007 1008) (handleSendMessage 7 8 ?W) =
       Some ((handleSendMessage 7 8 ?W)
               \<lparr>timers := tl (timers ?W @ [(SimulatedReply, 1000)]),
                 messages := messages ?W @ [u, b], isLoading := False\<rparr>)"
    by (elim exE conjE)
  from eq1 have a: "length (messages (handleSendMessage 7 8 ?W)) = 2"
    and b: "inputText (handleSendMessage 7 8 ?W) = []"
    and c: "isLoading (handleSendMessage 7 8 ?W)"
    and m1: "map sender (messages (handleSendMessage 7 8 ?W)) = [Bot, User]"
    using len snd0 su by simp_all
  from eq2 have d: "length (messages (runCallback SimulatedReply 1007 1008
        (handleSendMessage 7 8 ?W))) = 3"
    and e: "\<not> isLoading (runCallback SimulatedReply 1007 1008 (handleSendMessage 7 8 ?W))"
    using len by simp_all
  have f: "\<exists>v'. step (TimerFire 1007 1008) (handleSendMessage 7 8 ?W) = Some v'
         \<and> map sender (messages v') = [Bot, User, Bot]
         \<and> \<not> isLoading v'
         \<and> timers v' = []"
    using st snd0 su sb tm0 by simp
  have mv: "messages ?V = messages (handleSendMessage 7 8 ?W)"
    by (simp add: setInputText_def)
  from gen have g: "map sender (messages (runCallback SimulatedReply 1007 1008 ?V))
       = [Bot, User, Bot]"
    and h: "\<not> isLoading (runCallback SimulatedReply 1007 1008 ?V)"
    using mv m1 sb by simp_all
  from nb len a b c d e f g h show ?thesis by (intro conjI)
qed

section \<open>Blank drafts\<close>

text \<open>
  C5. With a blank (empty or white-space only) chat draft, \<open>handleSendMessage\<close>, also when
  reached by the Enter key, returns the state as it was: transcript, loading flag, drafts,
  console, timers and requests. With a blank repository URL draft, so does
  \<open>handleRepoSubmit\<close>.
\<close>

theorem blank_submission_noop:
  "(\<not> truthy (trim (inputText w)) \<longrightarrow>
      handleSendMessage now date w = w \<and> snd (handleKeyPress e now date w) = w)
   \<and> (\<not> truthy (trim (repoUrl w)) \<longrightarrow> handleRepoSubmit now date w = w)"
  by (simp add: handleSendMessage_def handleKeyPress_def handleRepoSubmit_def)

theorem blank_submission_noop_witness:
  "\<not> truthy (trim (inputText (setInputText [0x20, 0x09, 0x0A, 0xA0] (initial 0))))
   \<and> handleSendMessage 3 4 (setInputText [0x20, 0x09, 0x0A, 0xA0] (initial 0))
       = setInputText [0x20, 0x09, 0x0A, 0xA0] (initial 0)
   \<and> snd (handleKeyPress \<lparr>key = js ''Enter'', shiftKey = False\<rparr> 3 4
            (setInputText [0x20, 0x09, 0x0A, 0xA0] (initial 0)))
       = setInputText [0x20, 0x09, 0x0A, 0xA0] (initial 0)
   \<and> \<not> truthy (trim (repoUrl (setRepoUrl [0x20, 0x20] (initial 0))))
   \<and> handleRepoSubmit 3 4 (setRepoUrl [0x20, 0x20] (initial 0)) = setRepoUrl [0x20, 0x20] (initial 0)"
proof -
  have b1: "\<not> truthy (trim (inputText (setInputText [0x20, 0x09, 0x0A, 0xA0] (initial 0))))"
    by (simp add: setInputText_def truthy_def trim_def isWhiteSpace_def)
  have b2: "\<not> truthy (trim (repoUrl (setRepoUrl [0x20, 0x20] (initial 0))))"
    by (simp add: setRepoUrl_def truthy_def trim_def isWhiteSpace_def)
  from blank_submission_noop
         [of "setInputText [0x20, 0x09, 0x0A, 0xA0] (initial 0)" 3 4
             "\<lparr>key = js ''Enter'', shiftKey = False\<rparr>"] b1
  have p1: "handleSendMessage 3 4 (setInputText [0x20, 0x09, 0x0A, 0xA0] (initial 0))
              = setInputText [0x20, 0x09, 0x0A, 0xA0] (initial 0)
          \<and> snd (handleKeyPress \<lparr>key = js ''Enter'', shiftKey = False\<rparr> 3 4
                (setInputText [0x20, 0x09, 0x0A, 0xA0] (initial 0)))
              = setInputText [0x20, 0x09, 0x0A, 0xA0] (initial 0)"
    by blast
  from blank_submission_noop [of "setRepoUrl [0x20, 0x20] (initial 0)" 3 4] b2
  have p2: "handleRepoSubmit 3 4 (setRepoUrl [0x20, 0x20] (initial 0)) = setRepoUrl [0x20, 0x20] (initial 0)"
    by blast
  from b1 b2 p1 p2 show ?thesis by blast
qed

section \<open>The simulated reply\<close>

text \<open>
  C9. The assistant message that the scheduled callback appends carries the constant
  \<open>demoResponse\<close>: after a chat submission with a non-blank draft, whatever the draft
  was, and in every state \<open>v1\<close> in which the timer may run, whatever the user has typed
  or submitted meanwhile. Two replies always have the same text. The callback is
  scheduled with a delay of 1000 ms. Neither the submission nor the callback, run directly
  or by the timer event of the page, hands a request to the transport, which
  \<open>sendMessage\<close> of the chat client would do.
\<close>

theorem simulated_reply_constant:
  assumes "truthy (trim (inputText w1))" and "truthy (trim (inputText w2))"
  shows "text_of (last (messages (runCallback SimulatedReply n1' d1' (handleSendMessage n1 d1 w1))))
           = demoResponse
       \<and> text_of (last (messages (runCallback SimulatedReply n2' d2' (handleSendMessage n2 d2 w2))))
           = text_of (last (messages (runCallback SimulatedReply n1' d1' (handleSendMessage n1 d1 w1))))
       \<and> sender (last (messages (runCallback SimulatedReply n1' d1' (handleSendMessage n1 d1 w1)))) = Bot
       \<and> timers (handleSendMessage n1 d1 w1) = timers w1 @ [(SimulatedReply, 1000)]
       \<and> requests (handleSendMessage n1 d1 w1) = requests w1
       \<and> requests (runCallback SimulatedReply n1' d1' (handleSendMessage n1 d1 w1)) = requests w1
       \<and> requests (snd (sendMessage srv (inputText w1) w1)) \<noteq> requests w1
       \<and> messages (runCallback cb1 n1' d1' v1) =
           messages v1 @
             [\<lparr>id_of = toString (n1' + 1), text_of = demoResponse, sender = Bot,
               timestamp = d1'\<rparr>]
       \<and> text_of (last (messages (runCallback cb1 n1' d1' v1))) = demoResponse
       \<and> text_of (last (messages (runCallback cb2 n2' d2' v2)))
           = text_of (last (messages (runCallback cb1 n1' d1' v1)))
       \<and> requests (runCallback cb1 n1' d1' v1) = requests v1
       \<and> (\<forall>v'. step (TimerFire n1' d1') v1 = Some v' \<longrightarrow>
             messages v' =
               messages v1 @
                 [\<lparr>id_of = toString (n1' + 1), text_of = demoResponse, sender = Bot,
                   timestamp = d1'\<rparr>]
           \<and> requests v' = requests v1)"
proof -
  have sub: "handleSendMessage n d w =
          w\<lparr>messages := messages w @
                [\<lparr>id_of = toString n, text_of = inputText w, sender = User, timestamp = d\<rparr>],
            inputText := [], isLoading := True,
            timers := timers w @ [(SimulatedReply, 1000)]\<rparr>"
    if "truthy (trim (inputText w))" for n d w
    using that by (simp add: handleSendMessage_def Let_def)
  have tm: "timers (handleSendMessage n1 d1 w1) = timers w1 @ [(SimulatedReply, 1000)]"
    and rq: "requests (handleSendMessage n1 d1 w1) = requests w1"
    by (simp_all add: sub [OF assms(1)])
  have stepped: "\<forall>v'. step (TimerFire n1' d1') v1 = Some v' \<longrightarrow>
             messages v' =
               messages v1 @
                 [\<lparr>id_of = toString (n1' + 1), text_of = demoResponse, sender = Bot,
                   timestamp = d1'\<rparr>]
           \<and> requests v' = requests v1"
  proof (cases "timers v1")
    case Nil
    then show ?thesis by (simp add: step_TimerFire_None)
  next
    case (Cons t rest)
    then obtain c d where "timers v1 = (c, d) # rest" by (cases t) simp
    from step_TimerFire [OF this, of n1' d1'] show ?thesis by auto
  qed
  show ?thesis
    using tm rq stepped
    by (simp add: runCallback_effect requests_sendMessage)
qed


theorem simulated_reply_constant_witness:
  "truthy (trim (inputText (setInputText (js ''hello'') (initial 0))))
   \<and> truthy (trim (inputText (setInputText (js ''scale my pods'') (initial 0))))
   \<and> text_of (last (messages (runCallback SimulatedReply 1001 1002
         (handleSendMessage 1 2 (setInputText (js ''hello'') (initial 0)))))) = demoResponse
   \<and> text_of (last (messages (runCallback SimulatedReply 1011 1012
         (handleSendMessage 11 12 (setInputText (js ''scale my pods'') (initial 0))))))
       = text_of (last (messages (runCallback SimulatedReply 1001 1002
         (handleSendMessage 1 2 (setInputText (js ''hello'') (initial 0))))))
   \<and> requests (runCallback SimulatedReply 1001 1002
         (handleSendMessage 1 2 (setInputText (js ''hello'') (initial 0)))) = []
   \<and> text_of (last (messages (runCallback SimulatedReply 1001 1002
         (setInputText (js ''and then?'')
           (handleSendMessage 1 2 (setInputText (js ''hello'') (initial 0))))))) = demoResponse
   \<and> (\<exists>v'. step (TimerFire 1001 1002)
               (setInputText (js ''and then?'')
                 (handleSendMessage 1 2 (setInputText (js ''hello'') (initial 0)))) = Some v'
         \<and> map text_of (messages v') = [greeting, js ''hello'', demoResponse]
         \<and> requests v' = [])"
proof -
  let ?W1 = "setInputText (js ''hello'') (initial 0)"
  let ?W2 = "setInputText (js ''scale my pods'') (initial 0)"
  let ?V = "setInputText (js ''and then?'') (handleSendMessage 1 2 ?W1)"
  have nb1: "truthy (trim (inputText ?W1))"
    by (simp add: setInputText_def truthy_def trim_def js_def isWhiteSpace_def)
  have nb2: "truthy (trim (inputText ?W2))"
    by (simp add: setInputText_def truthy_def trim_def js_def isWhiteSpace_def)
  have rq: "requests ?W1 = []" and tm0: "timers ?W1 = []"
    and ms0: "map text_of (messages ?W1) = [greeting]" and in0: "inputText ?W1 = js ''hello''"
    by (simp_all add: setInputText_def initial_def)
  have sent: "handleSendMessage 1 2 ?W1 =
      ?W1\<lparr>messages := messages ?W1 @
               [\<lparr>id_of = toString 1, text_of = inputText ?W1, sender = User, timestamp = 2\<rparr>],
          inputText := [], isLoading := True,
          timers := timers ?W1 @ [(SimulatedReply, 1000)]\<rparr>"
    using nb1 by (simp add: handleSendMessage_def Let_def)
  have tmS: "timers (handleSendMessage 1 2 ?W1) = [(SimulatedReply, 1000)]"
    and rqS: "requests (handleSendMessage 1 2 ?W1) = []"
    and msS: "map text_of (messages (handleSendMessage 1 2 ?W1)) = [greeting, js ''hello'']"
    using tm0 rq ms0 in0 by (subst sent, simp)+
  have frame: "timers (setInputText s v) = timers v" "requests (setInputText s v) = requests v"
    "messages (setInputText s v) = messages v" for s v
    by (simp_all add: setInputText_def)
  have tmV: "timers ?V = (SimulatedReply, 1000) # []"
    and rqV: "requests ?V = []"
    and msV: "map text_of (messages ?V) = [greeting, js ''hello'']"
    by (simp_all only: frame tmS rqS msS)
  from step_TimerFire [OF tmV, of 1001 1002]
  obtain v' where sv: "step (TimerFire 1001 1002) ?V = Some v'"
    by simp
  note inst = simulated_reply_constant
    [where ?w1.0 = "?W1" and ?w2.0 = "?W2" and ?n1.0 = 1 and ?d1.0 = 2 and n1' = 1001
       and d1' = 1002 and ?n2.0 = 11 and ?d2.0 = 12 and n2' = 1011 and d2' = 1012
       and ?cb1.0 = SimulatedReply and ?cb2.0 = SimulatedReply and ?v1.0 = "?V" and ?v2.0 = "?V"
       and srv = "\<lambda>rq. Inl TypeError",
     OF nb1 nb2]
  from inst have a: "text_of (last (messages (runCallback SimulatedReply 1001 1002
         (handleSendMessage 1 2 ?W1)))) = demoResponse"
    and b: "text_of (last (messages (runCallback SimulatedReply 1011 1012
         (handleSendMessage 11 12 ?W2))))
       = text_of (last (messages (runCallback SimulatedReply 1001 1002
         (handleSendMessage 1 2 ?W1))))"
    and c0: "requests (runCallback SimulatedReply 1001 1002 (handleSendMessage 1 2 ?W1))
       = requests ?W1"
    and d: "text_of (last (messages (runCallback SimulatedReply 1001 1002 ?V))) = demoResponse"
    and st: "\<forall>v'. step (TimerFire 1001 1002) ?V = Some v' \<longrightarrow>
             messages v' =
               messages ?V @
                 [\<lparr>id_of = toString (1001 + 1), text_of = demoResponse, sender = Bot,
                   timestamp = 1002\<rparr>]
           \<and> requests v' = requests ?V"
    by simp_all
  from c0 rq have c: "requests (runCallback SimulatedReply 1001 1002
         (handleSendMessage 1 2 ?W1)) = []"
    by simp
  from st sv have "messages v' =
               messages ?V @
                 [\<lparr>id_of = toString (1001 + 1), text_of = demoResponse, sender = Bot,
                   timestamp = 1002\<rparr>]"
    and "requests v' = requests ?V"
    by simp_all
  with msV rqV have "map text_of (messages v') = [greeting, js ''hello'', demoResponse]"
    and "requests v' = []"
    by simp_all
  with sv have e: "\<exists>v'. step (TimerFire 1001 1002) ?V = Some v'
         \<and> map text_of (messages v') = [greeting, js ''hello'', demoResponse]
         \<and> requests v' = []"
    by (intro exI [of _ v'] conjI)
  from nb1 nb2 a b c d e show ?thesis by (intro conjI)
qed

section \<open>Repository URL submission\<close>

text \<open>
  C10. With a non-blank repository URL draft, \<open>handleRepoSubmit\<close> leaves the repository URL
  draft as it was (it is not cleared) and does not touch the loading flag; the chat draft
  and the timers are unchanged too.
\<close>

theorem repo_submit_keeps_draft_and_flag:
  "truthy (trim (repoUrl w)) \<Longrightarrow>
     repoUrl (handleRepoSubmit now date w) = repoUrl w
   \<and> isLoading (handleRepoSubmit now date w) = isLoading w
   \<and> inputText (handleRepoSubmit now date w) = inputText w
   \<and> timers (handleRepoSubmit now date w) = timers w"
  by (simp add: handleRepoSubmit_def)

theorem repo_submit_keeps_draft_and_flag_witness:
  "truthy (trim (repoUrl (setRepoUrl (js ''https://github.com/org/repo'') (initial 0))))
   \<and> repoUrl (handleRepoSubmit 1 2 (setRepoUrl (js ''https://github.com/org/repo'') (initial 0)))
        = js ''https://github.com/org/repo''
   \<and> \<not> isLoading (handleRepoSubmit 1 2 (setRepoUrl (js ''https://github.com/org/repo'') (initial 0)))"
proof -
  have nb: "truthy (trim (repoUrl (setRepoUrl (js ''https://github.com/org/repo'') (initial 0))))"
    by (simp add: setRepoUrl_def truthy_def trim_def js_def isWhiteSpace_def)
  have "repoUrl (setRepoUrl (js ''https://github.com/org/repo'') (initial 0)) = js ''https://github.com/org/repo''"
    and "\<not> isLoading (setRepoUrl (js ''https://github.com/org/repo'') (initial 0))"
    by (simp_all add: setRepoUrl_def initial_def)
  with repo_submit_keeps_draft_and_flag [OF nb, of 1 2] nb show ?thesis by simp
qed

text \<open>
  C2, as the specification states it, fails: with the draft
  \<open>https://github.com/org/repo\<close> the submission hands no request to the transport, so
  the request that \<open>analyzeRepository\<close> makes for this URL (see
  \<open>requests_analyzeRepository\<close>) is not among the requests made.
\<close>

theorem repo_submit_ingestion_counterexample:
  "truthy (trim (repoUrl (setRepoUrl (js ''https://github.com/org/repo'') (initial 0))))
   \<and> requests (handleRepoSubmit 1 2 (setRepoUrl (js ''https://github.com/org/repo'') (initial 0))) = []
   \<and> postConfig (js ''/repository/analyze'')
        (JsonBody (JObj [(js ''repository_url'', JStr (js ''https://github.com/org/repo''))]))
        Map.empty
      \<notin> set (requests (handleRepoSubmit 1 2
                 (setRepoUrl (js ''https://github.com/org/repo'') (initial 0))))"
proof -
  have nb: "truthy (trim (repoUrl (setRepoUrl (js ''https://github.com/org/repo'') (initial 0))))"
    by (simp add: setRepoUrl_def truthy_def trim_def js_def isWhiteSpace_def)
  have none: "requests (handleRepoSubmit 1 2
                 (setRepoUrl (js ''https://github.com/org/repo'') (initial 0))) = []"
    by (simp add: handleRepoSubmit_def setRepoUrl_def initial_def)
  from nb none show ?thesis by simp
qed

text \<open>
  C2, amended. With a non-blank repository URL draft, \<open>handleRepoSubmit\<close> writes the URL to
  the console and appends exactly one assistant message, synthesized by the client, whose
  text announces the URL; it hands no request to the transport. With a blank draft it
  changes nothing.
\<close>

theorem repo_submit_announces_only:
  "(truthy (trim (repoUrl w)) \<longrightarrow>
      (\<exists>m. handleRepoSubmit now date w =
              w\<lparr>console := console w @
                   [ConsoleLog [ArgStr (js ''Repository URL:''), ArgStr (repoUrl w)]],
                messages := messages w @ [m]\<rparr>
          \<and> sender m = Bot
          \<and> text_of m = js ''Analyzing repository: '' @ repoUrl w)
      \<and> requests (handleRepoSubmit now date w) = requests w)
   \<and> (\<not> truthy (trim (repoUrl w)) \<longrightarrow> handleRepoSubmit now date w = w)"
proof (intro conjI impI)
  assume nb: "truthy (trim (repoUrl w))"
  let ?m = "\<lparr>id_of = toString now, text_of = js ''Analyzing repository: '' @ repoUrl w,
             sender = Bot, timestamp = date\<rparr>"
  show "\<exists>m. handleRepoSubmit now date w =
              w\<lparr>console := console w @
                   [ConsoleLog [ArgStr (js ''Repository URL:''), ArgStr (repoUrl w)]],
                messages := messages w @ [m]\<rparr>
          \<and> sender m = Bot
          \<and> text_of m = js ''Analyzing repository: '' @ repoUrl w"
    using nb by (intro exI [of _ ?m]) (simp add: handleRepoSubmit_def)
  show "requests (handleRepoSubmit now date w) = requests w"
    by (simp add: handleRepoSubmit_def)
next
  assume "\<not> truthy (trim (repoUrl w))"
  then show "handleRepoSubmit now date w = w"
    by (simp add: handleRepoSubmit_def)
qed

theorem repo_submit_announces_only_witness:
  "truthy (trim (repoUrl (setRepoUrl (js ''https://github.com/org/repo'') (initial 0))))
   \<and> map text_of (messages (handleRepoSubmit 1 2
         (setRepoUrl (js ''https://github.com/org/repo'') (initial 0))))
       = [greeting, js ''Analyzing repository: '' @ js ''https://github.com/org/repo'']
   \<and> requests (handleRepoSubmit 1 2
         (setRepoUrl (js ''https://github.com/org/repo'') (initial 0))) = []
   \<and> \<not> truthy (trim (repoUrl (initial 0)))
   \<and> handleRepoSubmit 1 2 (initial 0) = initial 0"
proof -
  let ?w = "setRepoUrl (js ''https://github.com/org/repo'') (initial 0)"
  have nb: "truthy (trim (repoUrl ?w))"
    by (simp add: setRepoUrl_def truthy_def trim_def js_def isWhiteSpace_def)
  have bl: "\<not> truthy (trim (repoUrl (initial 0)))"
    by (simp add: initial_def truthy_def trim_def)
  have w0: "messages ?w = messages (initial 0)" "repoUrl ?w = js ''https://github.com/org/repo''"
    "requests ?w = []" "map text_of (messages (initial 0)) = [greeting]"
    by (simp_all add: setRepoUrl_def initial_def)
  from repo_submit_announces_only [of ?w 1 2] nb
  have ex: "\<exists>m. handleRepoSubmit 1 2 ?w =
           ?w\<lparr>console := console ?w @
                 [ConsoleLog [ArgStr (js ''Repository URL:''), ArgStr (repoUrl ?w)]],
               messages := messages ?w @ [m]\<rparr>
         \<and> sender m = Bot
         \<and> text_of m = js ''Analyzing repository: '' @ repoUrl ?w"
    and rq: "requests (handleRepoSubmit 1 2 ?w) = requests ?w"
    by simp_all
  from ex obtain m where
    eq: "handleRepoSubmit 1 2 ?w =
           ?w\<lparr>console := console ?w @
                 [ConsoleLog [ArgStr (js ''Repository URL:''), ArgStr (repoUrl ?w)]],
               messages := messages ?w @ [m]\<rparr>"
    and tx: "text_of m = js ''Analyzing repository: '' @ repoUrl ?w"
    by (elim exE conjE)
  from eq tx w0 have a: "map text_of (messages (handleRepoSubmit 1 2 ?w))
       = [greeting, js ''Analyzing repository: '' @ js ''https://github.com/org/repo'']"
    by simp
  from rq w0 have b: "requests (handleRepoSubmit 1 2 ?w) = []" by simp
  from repo_submit_announces_only [of "initial 0" 1 2] bl
  have c: "handleRepoSubmit 1 2 (initial 0) = initial 0" by simp
  from nb a b bl c show ?thesis by (intro conjI)
qed

section \<open>File selection\<close>

text \<open>
  C3, as the specification states it, fails: when the files \<open>a.zip\<close> and \<open>b.zip\<close> are
  selected, the handler hands no request to the transport, so the upload request that
  \<open>uploadFiles\<close> makes for the two files (see \<open>requests_uploadFiles\<close>) is not among the
  requests made; the only effect is one console line naming \<open>a.zip\<close>.
\<close>

theorem file_selection_upload_counterexample:
  "requests (handleFileUpload
       (Some [\<lparr>file_name = js ''a.zip'', file_content = [1]\<rparr>,
              \<lparr>file_name = js ''b.zip'', file_content = [2]\<rparr>]) (initial 0)) = []
   \<and> postConfig (js ''/repository/upload'')
        (FormData [(js ''files'', \<lparr>file_name = js ''a.zip'', file_content = [1]\<rparr>),
                   (js ''files'', \<lparr>file_name = js ''b.zip'', file_content = [2]\<rparr>)])
        [js ''Content-Type'' \<mapsto> js ''multipart/form-data'']
      \<notin> set (requests (handleFileUpload
                 (Some [\<lparr>file_name = js ''a.zip'', file_content = [1]\<rparr>,
                        \<lparr>file_name = js ''b.zip'', file_content = [2]\<rparr>]) (initial 0)))
   \<and> console (handleFileUpload
       (Some [\<lparr>file_name = js ''a.zip'', file_content = [1]\<rparr>,
              \<lparr>file_name = js ''b.zip'', file_content = [2]\<rparr>]) (initial 0))
       = [ConsoleLog [ArgStr (js ''File uploaded:''), ArgStr (js ''a.zip'')]]"
  by (simp add: handleFileUpload_def initial_def)

text \<open>
  C3, amended. A file selection is handled at once, in every state and with no
  confirmation step. For a non-empty selection the handler writes one console line with
  the name of the first selected file and changes nothing else: it hands no request to the
  transport.
\<close>

theorem file_selection_logs_only:
  "step (FileChange (Some (file # rest))) w = Some (handleFileUpload (Some (file # rest)) w)
   \<and> handleFileUpload (Some (file # rest)) w =
       w\<lparr>console := console w @
            [ConsoleLog [ArgStr (js ''File uploaded:''), ArgStr (file_name file)]]\<rparr>
   \<and> requests (handleFileUpload (Some (file # rest)) w) = requests w"
  by (simp add: step_def handleFileUpload_def)

section \<open>Submitting while a reply is pending\<close>

text \<open>
  C1 does not hold of the code. From the initial state the user types \<open>a\<close> and presses
  Enter, then types \<open>b\<close> while the reply is pending. The send button is disabled, so a
  click is not offered; but the Enter key reaches \<open>handleSendMessage\<close>, which tests the
  draft only: a second user message is appended and a second reply is scheduled while the
  loading flag is set. When the first reply runs, the flag is cleared although the second
  reply is still scheduled.
\<close>

theorem enter_key_submits_while_loading:
  "\<exists>w1 w2 w3.
     run [InputChange (js ''a''), KeyPress \<lparr>key = js ''Enter'', shiftKey = False\<rparr> 1 1,
          InputChange (js ''b'')] (initial 0) = Some w1
   \<and> isLoading w1
   \<and> inputText w1 = js ''b''
   \<and> step (SendClick 2 2) w1 = None
   \<and> step (KeyPress \<lparr>key = js ''Enter'', shiftKey = False\<rparr> 2 2) w1 = Some w2
   \<and> map sender (messages w2) = [Bot, User, User]
   \<and> map text_of (messages w2) = [greeting, js ''a'', js ''b'']
   \<and> timers w2 = [(SimulatedReply, 1000), (SimulatedReply, 1000)]
   \<and> step (TimerFire 1001 1001) w2 = Some w3
   \<and> \<not> isLoading w3
   \<and> timers w3 = [(SimulatedReply, 1000)]"
proof -
  have nba: "truthy (trim (js ''a''))" and nbb: "truthy (trim (js ''b''))"
    by (simp_all add: truthy_def trim_def js_def isWhiteSpace_def)
  let ?enter = "\<lparr>key = js ''Enter'', shiftKey = False\<rparr>"
  let ?w1 = "setInputText (js ''b'') (handleSendMessage 1 1 (setInputText (js ''a'') (initial 0)))"
  let ?w2 = "handleSendMessage 2 2 ?w1"
  let ?w3 = "simulatedReply 1001 1001 (?w2\<lparr>timers := [(SimulatedReply, 1000)]\<rparr>)"
  have r1: "run [InputChange (js ''a''), KeyPress ?enter 1 1, InputChange (js ''b'')] (initial 0)
              = Some ?w1"
    using nba
    by (simp add: step_def handleKeyPress_def handleSendMessage_def setInputText_def
        initial_def Let_def)
  have l1: "isLoading ?w1" "inputText ?w1 = js ''b''"
    using nba by (simp_all add: handleSendMessage_def setInputText_def initial_def Let_def)
  have chat: "activeTab ?w1 = js ''chat''"
    using nba by (simp add: handleSendMessage_def setInputText_def initial_def Let_def)
  have s1: "step (SendClick 2 2) ?w1 = None"
    using l1 by (simp add: step_def sendDisabled_def)
  have s2: "step (KeyPress ?enter 2 2) ?w1 = Some ?w2"
    using chat by (simp add: step_def handleKeyPress_def)
  have m2: "map sender (messages ?w2) = [Bot, User, User]"
    "map text_of (messages ?w2) = [greeting, js ''a'', js ''b'']"
    "timers ?w2 = [(SimulatedReply, 1000), (SimulatedReply, 1000)]"
    using nba nbb by (simp_all add: handleSendMessage_def setInputText_def initial_def Let_def)
  have s3: "step (TimerFire 1001 1001) ?w2 = Some ?w3"
    using m2(3) by (simp add: step_def runCallback_def)
  have l3: "\<not> isLoading ?w3" "timers ?w3 = [(SimulatedReply, 1000)]"
    by (simp_all add: simulatedReply_def Let_def)
  from r1 l1 s1 s2 m2 s3 l3 show ?thesis
    by (intro exI [of _ ?w1] exI [of _ ?w2] exI [of _ ?w3] conjI)
qed

section \<open>The upload request\<close>

text \<open>
  C8. For every list of files, \<open>uploadFiles\<close> makes exactly one request: a POST to
  \<open>/repository/upload\<close> under the base \<open>/api\<close>, with content type multipart form data,
  whose form holds one entry per file, each under the name \<open>files\<close>, in the order of the
  input. It returns the data of the response, or the error of the rejection.
\<close>

theorem uploadFiles_attaches_in_order:
  "\<exists>rq. method_of rq = POST
       \<and> baseURL rq = js ''/api''
       \<and> url rq = js ''/repository/upload''
       \<and> body rq = FormData (map (\<lambda>file. (js ''files'', file)) files)
       \<and> headers rq (js ''Content-Type'') = Some (js ''multipart/form-data'')
       \<and> requests (snd (uploadFiles srv files w)) = requests w @ [rq]
       \<and> fst (uploadFiles srv files w) =
           (case srv rq of Inl e \<Rightarrow> Inl e | Inr response \<Rightarrow> Inr (data response))"
proof -
  let ?rq = "postConfig (js ''/repository/upload'')
               (FormData (map (\<lambda>file. (js ''files'', file)) files))
               [js ''Content-Type'' \<mapsto> js ''multipart/form-data'']"
  have "method_of ?rq = POST" "baseURL ?rq = js ''/api''" "url ?rq = js ''/repository/upload''"
    "body ?rq = FormData (map (\<lambda>file. (js ''files'', file)) files)"
    "headers ?rq (js ''Content-Type'') = Some (js ''multipart/form-data'')"
    by (simp_all add: postConfig_def API_BASE_URL_def)
  moreover have "requests (snd (uploadFiles srv files w)) = requests w @ [?rq]"
    by (rule requests_uploadFiles)
  moreover have "fst (uploadFiles srv files w) =
           (case srv ?rq of Inl e \<Rightarrow> Inl e | Inr response \<Rightarrow> Inr (data response))"
    by (simp add: uploadFiles_def api_post_def api_request_outcome foldl_formData_append Let_def
        split: sum.splits)
  ultimately show ?thesis
    by (intro exI [of _ ?rq] conjI)
qed

section \<open>Transport errors\<close>

text \<open>
  C7. When the service rejects a request with an error, the transport writes exactly one
  console line (\<open>API Error:\<close> and the error) and rejects with the same error. Each of the
  seven client functions makes exactly one request, whatever its outcome (no retry), and
  when that request is rejected the function rejects with the same error, having added
  nothing to what the transport did.
\<close>

theorem transport_error_logged_once_and_rethrown:
  assumes "call \<in> set [sendMessage srv message, getHistory srv, analyzeRepository srv u,
                        uploadFiles srv files, getSuggestions srv, generateTestScripts srv tt,
                        generateMonitoringConfig srv mt]"
  shows "(\<forall>rq e. srv rq = Inl e \<longrightarrow>
            api_request srv rq w =
              (Inl e,
               w\<lparr>requests := requests w @ [rq],
                 console := console w @ [ConsoleError [ArgStr (js ''API Error:''), ArgErr e]]\<rparr>))
       \<and> (\<exists>rq. requests (snd (call w)) = requests w @ [rq]
            \<and> (\<forall>e. srv rq = Inl e \<longrightarrow>
                 call w =
                   (Inl e,
                    w\<lparr>requests := requests w @ [rq],
                      console := console w @
                        [ConsoleError [ArgStr (js ''API Error:''), ArgErr e]]\<rparr>)))"
proof (rule conjI)
  show "\<forall>rq e. srv rq = Inl e \<longrightarrow>
            api_request srv rq w =
              (Inl e,
               w\<lparr>requests := requests w @ [rq],
                 console := console w @ [ConsoleError [ArgStr (js ''API Error:''), ArgErr e]]\<rparr>)"
    by (simp add: api_request_outcome)
next
  from assms consider
      (chat) "call = sendMessage srv message"
    | (history) "call = getHistory srv"
    | (analyze) "call = analyzeRepository srv u"
    | (upload) "call = uploadFiles srv files"
    | (suggestions) "call = getSuggestions srv"
    | (tests) "call = generateTestScripts srv tt"
    | (monitoring) "call = generateMonitoringConfig srv mt"
    by auto
  then show "\<exists>rq. requests (snd (call w)) = requests w @ [rq]
            \<and> (\<forall>e. srv rq = Inl e \<longrightarrow>
                 call w =
                   (Inl e,
                    w\<lparr>requests := requests w @ [rq],
                      console := console w @
                        [ConsoleError [ArgStr (js ''API Error:''), ArgErr e]]\<rparr>))"
  proof cases
    case chat
    show ?thesis
      by (rule exI, rule awaited_call) (simp add: chat sendMessage_def api_post_def)
  next
    case history
    show ?thesis
      by (rule exI, rule awaited_call) (simp add: history getHistory_def api_get_def)
  next
    case analyze
    show ?thesis
      by (rule exI, rule awaited_call) (simp add: analyze analyzeRepository_def api_post_def)
  next
    case upload
    show ?thesis
      by (rule exI, rule awaited_call) (simp add: upload uploadFiles_def api_post_def Let_def)
  next
    case suggestions
    show ?thesis
      by (rule exI, rule awaited_call) (simp add: suggestions getSuggestions_def api_get_def)
  next
    case tests
    show ?thesis
      by (rule exI, rule awaited_call) (simp add: tests generateTestScripts_def api_post_def)
  next
    case monitoring
    show ?thesis
      by (rule exI, rule awaited_call)
        (simp add: monitoring generateMonitoringConfig_def api_post_def)
  qed
qed

theorem transport_error_logged_once_and_rethrown_witness:
  "generateTestScripts (\<lambda>rq. Inl (TransportError (Some 503) (js ''Service Unavailable''))) Pytest
     \<in> set [sendMessage (\<lambda>rq. Inl (TransportError (Some 503) (js ''Service Unavailable''))) (js ''hello''),
             getHistory (\<lambda>rq. Inl (TransportError (Some 503) (js ''Service Unavailable''))),
             analyzeRepository (\<lambda>rq. Inl (TransportError (Some 503) (js ''Service Unavailable''))) (js ''u''),
             uploadFiles (\<lambda>rq. Inl (TransportError (Some 503) (js ''Service Unavailable''))) [],
             getSuggestions (\<lambda>rq. Inl (TransportError (Some 503) (js ''Service Unavailable''))),
             generateTestScripts (\<lambda>rq. Inl (TransportError (Some 503) (js ''Service Unavailable''))) Pytest,
             generateMonitoringConfig (\<lambda>rq. Inl (TransportError (Some 503) (js ''Service Unavailable''))) Grafana]
   \<and> fst (generateTestScripts (\<lambda>rq. Inl (TransportError (Some 503) (js ''Service Unavailable'')))
         Pytest (initial 0))
       = Inl (TransportError (Some 503) (js ''Service Unavailable''))
   \<and> console (snd (generateTestScripts
         (\<lambda>rq. Inl (TransportError (Some 503) (js ''Service Unavailable''))) Pytest (initial 0)))
       = [ConsoleError [ArgStr (js ''API Error:''),
                        ArgErr (TransportError (Some 503) (js ''Service Unavailable''))]]
   \<and> length (requests (snd (generateTestScripts
         (\<lambda>rq. Inl (TransportError (Some 503) (js ''Service Unavailable''))) Pytest (initial 0)))) = 1"
proof -
  define err where "err = TransportError (Some 503) (js ''Service Unavailable'')"
  define srv :: service where "srv = (\<lambda>rq. Inl err)"
  have mem: "generateTestScripts srv Pytest
     \<in> set [sendMessage srv (js ''hello''), getHistory srv, analyzeRepository srv (js ''u''),
             uploadFiles srv [], getSuggestions srv, generateTestScripts srv Pytest,
             generateMonitoringConfig srv Grafana]"
    by simp
  have rej: "srv rq = Inl err" for rq
    by (simp add: srv_def)
  have w0: "console (initial 0) = []" "requests (initial 0) = []"
    by (simp_all add: initial_def)
  from transport_error_logged_once_and_rethrown [OF mem, of "initial 0"]
  obtain rq where
    "\<forall>e. srv rq = Inl e \<longrightarrow>
       generateTestScripts srv Pytest (initial 0) =
         (Inl e,
          (initial 0)\<lparr>requests := requests (initial 0) @ [rq],
            console := console (initial 0) @
              [ConsoleError [ArgStr (js ''API Error:''), ArgErr e]]\<rparr>)"
    by (elim conjE exE)
  with rej have out: "generateTestScripts srv Pytest (initial 0) =
         (Inl err,
          (initial 0)\<lparr>requests := requests (initial 0) @ [rq],
            console := console (initial 0) @
              [ConsoleError [ArgStr (js ''API Error:''), ArgErr err]]\<rparr>)"
    by simp
  have "fst (generateTestScripts srv Pytest (initial 0)) = Inl err"
    and "console (snd (generateTestScripts srv Pytest (initial 0)))
       = [ConsoleError [ArgStr (js ''API Error:''), ArgErr err]]"
    and "length (requests (snd (generateTestScripts srv Pytest (initial 0)))) = 1"
    by (simp_all add: out w0)
  with mem show ?thesis
    unfolding srv_def err_def by (intro conjI)
qed

end
